theory Spec2Isabelle
  imports Complex_Main "HOL-Library.Sublist"
begin

section \<open>The log relay of vite-plugin-terminal-mcp\<close>

text \<open>
  A shallow embedding of the in-memory log store (\<^verbatim>\<open>src/logStore.ts\<close>), of the query
  tools registered on the MCP server (\<^verbatim>\<open>src/mcp-server.ts\<close>) and of the
  \<^verbatim>\<open>/__terminal\<close> middleware of the plugin, which decodes one request and stores it.
\<close>

subsection \<open>JavaScript numbers and array slices\<close>

text \<open>
  A JavaScript \<^verbatim>\<open>number\<close> is \<^verbatim>\<open>NaN\<close>, one of the two infinities or a finite value.
  Finite values are kept as reals (every finite double is one), and \<open>-0\<close> is \<open>0\<close>.
\<close>

datatype number = NaN | Num real | PosInfinity | NegInfinity

text \<open>The comparisons \<^verbatim>\<open>a >= b\<close> and \<^verbatim>\<open>a <= b\<close>: false as soon as one side is NaN.\<close>

fun num_ge :: "number \<Rightarrow> number \<Rightarrow> bool" where
  "num_ge NaN _ = False"
| "num_ge _ NaN = False"
| "num_ge PosInfinity _ = True"
| "num_ge _ NegInfinity = True"
| "num_ge (Num a) (Num b) = (a \<ge> b)"
| "num_ge _ _ = False"

fun num_le :: "number \<Rightarrow> number \<Rightarrow> bool" where
  "num_le NaN _ = False"
| "num_le _ NaN = False"
| "num_le NegInfinity _ = True"
| "num_le _ PosInfinity = True"
| "num_le (Num a) (Num b) = (a \<le> b)"
| "num_le _ _ = False"


text \<open>Unary minus, \<^verbatim>\<open>-count\<close>.\<close>

fun negate :: "number \<Rightarrow> number" where
  "negate NaN = NaN"
| "negate (Num a) = Num (- a)"
| "negate PosInfinity = NegInfinity"
| "negate NegInfinity = PosInfinity"

text \<open>
  \<^verbatim>\<open>ToIntegerOrInfinity\<close>, which \<^verbatim>\<open>Array.prototype.slice\<close> and
  \<^verbatim>\<open>String.prototype.repeat\<close> apply to their argument: NaN becomes 0, an infinity stays,
  any other value is truncated towards zero.
\<close>

datatype integer_or_infinity = MinusInfinity | Integer int | PlusInfinity

fun ToIntegerOrInfinity :: "number \<Rightarrow> integer_or_infinity" where
  "ToIntegerOrInfinity NaN = Integer 0"
| "ToIntegerOrInfinity (Num a) = Integer (if a \<ge> 0 then \<lfloor>a\<rfloor> else \<lceil>a\<rceil>)"
| "ToIntegerOrInfinity PosInfinity = PlusInfinity"
| "ToIntegerOrInfinity NegInfinity = MinusInfinity"

text \<open>
  \<^verbatim>\<open>xs.slice(start)\<close> with no end: a negative start counts from the end of the array,
  and the start is clamped to the array on both sides.
\<close>

definition slice :: "'a list \<Rightarrow> number \<Rightarrow> 'a list" where
  "slice xs start =
     (let len = int (length xs);
          k = (case ToIntegerOrInfinity start of
                 MinusInfinity \<Rightarrow> 0
               | Integer relativeStart \<Rightarrow>
                   if relativeStart < 0 then max (len + relativeStart) 0
                   else min relativeStart len
               | PlusInfinity \<Rightarrow> len)
      in drop (nat k) xs)"

subsection \<open>JavaScript strings\<close>

text \<open>
  A JavaScript string is a sequence of UTF-16 code units. A code unit is kept as a
  natural number (it is below 65536); \<open>lit\<close> gives the code units of an ASCII literal.
\<close>

type_synonym js_string = "nat list"

definition lit :: "string \<Rightarrow> js_string" where
  "lit s = map of_char s"

text \<open>
  A platform builds no string longer than some largest length (\<open>2^53 - 1\<close> in the
  language, far less in an engine) and throws a \<^verbatim>\<open>RangeError\<close> instead. The length is
  a parameter \<open>maxLength\<close> of every function that builds a string from its input.
\<close>

datatype error = RangeError

definition built :: "nat \<Rightarrow> js_string \<Rightarrow> error + js_string" where
  "built maxLength s = (if length s > maxLength then Inl RangeError else Inr s)"

text \<open>Running one step after another, stopping at the first that throws.\<close>

fun and_then :: "error + 'a \<Rightarrow> ('a \<Rightarrow> error + 'b) \<Rightarrow> error + 'b" where
  "and_then (Inl e) f = Inl e"
| "and_then (Inr x) f = f x"

text \<open>
  \<^verbatim>\<open>str.repeat(count)\<close>: a \<^verbatim>\<open>RangeError\<close> for a negative or infinite count, the empty
  string for the count 0, the copies otherwise.
\<close>

definition repeat :: "nat \<Rightarrow> js_string \<Rightarrow> number \<Rightarrow> error + js_string" where
  "repeat maxLength str cnt =
     (case ToIntegerOrInfinity cnt of
        Integer n \<Rightarrow>
          if n < 0 then Inl RangeError
          else if n = 0 then Inr []
          else if length str * nat n > maxLength then Inl RangeError
          else Inr (concat (replicate (nat n) str))
      | _ \<Rightarrow> Inl RangeError)"

text \<open>
  \<^verbatim>\<open>str.split(sep)\<close> for a separator of one code unit, and \<^verbatim>\<open>parts.join(sep)\<close>.
  Splitting the empty string gives one empty part.
\<close>

fun split :: "nat \<Rightarrow> js_string \<Rightarrow> js_string list" where
  "split sep [] = [[]]"
| "split sep (c # cs) =
     (if c = sep then [] # split sep cs
      else (case split sep cs of [] \<Rightarrow> [[c]] | part # parts \<Rightarrow> (c # part) # parts))"

fun join :: "js_string \<Rightarrow> js_string list \<Rightarrow> js_string" where
  "join sep [] = []"
| "join sep [part] = part"
| "join sep (part # parts) = part @ sep @ join sep parts"

text \<open>The decimal digits of a count, as \<^verbatim>\<open>${logs.length}\<close> renders it.\<close>

fun decimal :: "nat \<Rightarrow> js_string" where
  "decimal n = (if n < 10 then [48 + n] else decimal (n div 10) @ [48 + n mod 10])"

subsection \<open>The store: \<^verbatim>\<open>src/logStore.ts\<close>\<close>

text \<open>The six level tags of \<^verbatim>\<open>StoredLog['method']\<close>.\<close>

datatype level = Log | Info | Debug | Warn | Error | Assert

record StoredLog =
  "method" :: level
  message :: js_string
  timestamp :: number
  count :: number
  groupLevel :: number

text \<open>
  The class \<^verbatim>\<open>LogStore\<close>: the array \<^verbatim>\<open>logs\<close> and the capacity \<^verbatim>\<open>maxSize\<close>, a count
  of events (the option \<^verbatim>\<open>maxLogs\<close>), kept as an integer.
\<close>

record LogStore =
  logs :: "StoredLog list"
  maxSize :: int

text \<open>The constructor; \<^verbatim>\<open>None\<close> is an argument left undefined, which defaults to 1000.\<close>

definition new_LogStore :: "int option \<Rightarrow> LogStore" where
  "new_LogStore maxSize_arg =
     \<lparr>logs = [], maxSize = (case maxSize_arg of None \<Rightarrow> 1000 | Some m \<Rightarrow> m)\<rparr>"

text \<open>\<^verbatim>\<open>Array.prototype.shift\<close>: removes the first element, and leaves an empty array empty.\<close>

definition shift :: "'a list \<Rightarrow> 'a list" where
  "shift xs = (case xs of [] \<Rightarrow> [] | _ # rest \<Rightarrow> rest)"

definition add :: "LogStore \<Rightarrow> StoredLog \<Rightarrow> LogStore" where
  "add s lg =
     (let pushed = logs s @ [lg]
      in if int (length pushed) > maxSize s then s\<lparr>logs := shift pushed\<rparr>
         else s\<lparr>logs := pushed\<rparr>)"

definition getAll :: "LogStore \<Rightarrow> StoredLog list" where
  "getAll s = logs s"

definition getByLevel :: "LogStore \<Rightarrow> level \<Rightarrow> StoredLog list" where
  "getByLevel s lv = filter (\<lambda>lg. method lg = lv) (logs s)"

definition getErrors :: "LogStore \<Rightarrow> StoredLog list" where
  "getErrors s = filter (\<lambda>lg. method lg = Error \<or> method lg = Assert) (logs s)"

definition getRecent :: "LogStore \<Rightarrow> number \<Rightarrow> StoredLog list" where
  "getRecent s cnt = slice (logs s) (negate cnt)"

definition getRecentErrors :: "LogStore \<Rightarrow> number \<Rightarrow> StoredLog list" where
  "getRecentErrors s cnt = (let errors = getErrors s in slice errors (negate cnt))"

definition getSince :: "LogStore \<Rightarrow> number \<Rightarrow> StoredLog list" where
  "getSince s ts = filter (\<lambda>lg. num_ge (timestamp lg) ts) (logs s)"

definition clear :: "LogStore \<Rightarrow> LogStore" where
  "clear s = s\<lparr>logs := []\<rparr>"

definition size_LogStore :: "LogStore \<Rightarrow> nat" where
  "size_LogStore s = length (logs s)"

text \<open>An event of a given level and timestamp, for the concrete scenarios.\<close>

definition event :: "level \<Rightarrow> real \<Rightarrow> StoredLog" where
  "event lv t =
     \<lparr>method = lv, message = lit ''event'', timestamp = Num t, count = Num 0,
      groupLevel = Num 0\<rparr>"

text \<open>A run of \<^verbatim>\<open>add\<close> calls, in order.\<close>

definition add_all :: "LogStore \<Rightarrow> StoredLog list \<Rightarrow> LogStore" where
  "add_all s evs = foldl add s evs"

subsection \<open>The query tools: \<^verbatim>\<open>createMCPServer\<close> in \<^verbatim>\<open>src/mcp-server.ts\<close>\<close>

text \<open>
  Each tool handler closes over the store; here it takes the store and returns it with
  its result. \<^verbatim>\<open>McpServer.registerTool\<close> is given an input schema and an output schema
  with the handler. A call goes through three steps: the server checks the arguments
  against the input schema and answers an error when they fail; it calls the handler,
  and a handler that throws gives an error result; it checks the structured content the
  handler returned against the output schema and answers an error when that fails.
\<close>

datatype tool_error = InvalidParams | HandlerThrew error | InvalidOutput

text \<open>
  \<^verbatim>\<open>z.number()\<close> takes a number that is not NaN. Whether it takes an infinity depends
  on the version of the schema library (version 3 does, version 4 does not), which the
  repository does not fix: \<open>inf_ok\<close> says which.
\<close>

fun z_number :: "bool \<Rightarrow> number \<Rightarrow> bool" where
  "z_number inf_ok NaN = False"
| "z_number inf_ok (Num a) = True"
| "z_number inf_ok PosInfinity = inf_ok"
| "z_number inf_ok NegInfinity = inf_ok"

text \<open>\<^verbatim>\<open>z.number().nullable()\<close>; \<^verbatim>\<open>None\<close> is \<^verbatim>\<open>null\<close>.\<close>

fun z_number_nullable :: "bool \<Rightarrow> number option \<Rightarrow> bool" where
  "z_number_nullable inf_ok None = True"
| "z_number_nullable inf_ok (Some x) = z_number inf_ok x"

text \<open>
  The level filter of \<^verbatim>\<open>get-console-logs\<close>,
  \<^verbatim>\<open>z.enum(['log', 'info', 'debug', 'warn', 'error', 'assert', 'all'])\<close>.
\<close>

datatype level_filter = Only level | All

definition level_name :: "level \<Rightarrow> js_string" where
  "level_name lv =
     (case lv of Log \<Rightarrow> lit ''log'' | Info \<Rightarrow> lit ''info'' | Debug \<Rightarrow> lit ''debug''
      | Warn \<Rightarrow> lit ''warn'' | Error \<Rightarrow> lit ''error'' | Assert \<Rightarrow> lit ''assert'')"

definition level_enum :: "(js_string \<times> level_filter) list" where
  "level_enum =
     [(lit ''log'', Only Log), (lit ''info'', Only Info), (lit ''debug'', Only Debug),
      (lit ''warn'', Only Warn), (lit ''error'', Only Error), (lit ''assert'', Only Assert),
      (lit ''all'', All)]"

text \<open>
  The arguments of a \<^verbatim>\<open>get-console-logs\<close> call as they arrive: \<^verbatim>\<open>None\<close> is a
  property that is absent. Arguments of another JSON type are outside the model.
\<close>

record logs_args =
  arg_count :: "number option"
  arg_level :: "js_string option"

text \<open>The input schema \<^verbatim>\<open>{ count: z.number(), level: z.enum([...]) }\<close>.\<close>

definition parse_logs_args :: "bool \<Rightarrow> logs_args \<Rightarrow> (number \<times> level_filter) option" where
  "parse_logs_args inf_ok a =
     (case arg_count a of
        Some c \<Rightarrow>
          if z_number inf_ok c then
            (case arg_level a of
               Some name \<Rightarrow>
                 (case map_of level_enum name of
                    Some lv \<Rightarrow> Some (c, lv)
                  | None \<Rightarrow> None)
             | None \<Rightarrow> None)
          else None
      | None \<Rightarrow> None)"

text \<open>
  \<^verbatim>\<open>new Date(ts).toISOString()\<close>. The time value of the date is the number truncated
  to an integer when it is finite and at most \<open>8.64e15\<close> in magnitude, and invalid
  otherwise; \<^verbatim>\<open>toISOString\<close> throws a \<^verbatim>\<open>RangeError\<close> on an invalid date. The text of
  a valid date is the platform's, the parameter \<open>iso_text\<close>.
\<close>

definition time_value :: "number \<Rightarrow> int option" where
  "time_value ts =
     (case ts of
        Num a \<Rightarrow>
          if \<bar>a\<bar> \<le> 8640000000000000 then Some (if a \<ge> 0 then \<lfloor>a\<rfloor> else \<lceil>a\<rceil>)
          else None
      | _ \<Rightarrow> None)"

definition toISOString :: "(int \<Rightarrow> js_string) \<Rightarrow> number \<Rightarrow> error + js_string" where
  "toISOString iso_text ts = (case time_value ts of None \<Rightarrow> Inl RangeError | Some tv \<Rightarrow> Inr (iso_text tv))"

text \<open>\<^verbatim>\<open>log.method.toUpperCase()\<close>.\<close>

definition level_upper :: "level \<Rightarrow> js_string" where
  "level_upper lv =
     (case lv of Log \<Rightarrow> lit ''LOG'' | Info \<Rightarrow> lit ''INFO'' | Debug \<Rightarrow> lit ''DEBUG''
      | Warn \<Rightarrow> lit ''WARN'' | Error \<Rightarrow> lit ''ERROR'' | Assert \<Rightarrow> lit ''ASSERT'')"

text \<open>
  \<^verbatim>\<open>formatLogs\<close>: one line per event, \<^verbatim>\<open>[date] [LEVEL] indent message\<close>, joined by
  newlines under a title.
\<close>

definition format_entry :: "(int \<Rightarrow> js_string) \<Rightarrow> nat \<Rightarrow> StoredLog \<Rightarrow> error + js_string" where
  "format_entry iso_text maxLength lg =
     and_then (toISOString iso_text (timestamp lg)) (\<lambda>date.
     and_then (repeat maxLength (lit ''  '') (groupLevel lg)) (\<lambda>indent.
     built maxLength
       (lit ''['' @ date @ lit ''] ['' @ level_upper (method lg) @ lit ''] '' @ indent
          @ message lg)))"

fun format_entries :: "(int \<Rightarrow> js_string) \<Rightarrow> nat \<Rightarrow> StoredLog list \<Rightarrow> error + js_string list" where
  "format_entries iso_text maxLength [] = Inr []"
| "format_entries iso_text maxLength (lg # rest) =
     and_then (format_entry iso_text maxLength lg) (\<lambda>line.
     and_then (format_entries iso_text maxLength rest) (\<lambda>lines. Inr (line # lines)))"

definition formatLogs :: "(int \<Rightarrow> js_string) \<Rightarrow> nat \<Rightarrow> StoredLog list \<Rightarrow> js_string \<Rightarrow> error + js_string" where
  "formatLogs iso_text maxLength entries title =
     (if length entries = 0 then built maxLength (title @ lit '': No logs found.'')
      else
        and_then (format_entries iso_text maxLength entries) (\<lambda>lines.
        and_then (built maxLength (join [10] lines)) (\<lambda>formatted.
        built maxLength
          (title @ lit '' ('' @ decimal (length entries) @ lit '' entries):'' @ [10, 10]
             @ formatted))))"

record logs_output =
  out_logs :: "StoredLog list"
  out_count :: nat
  out_level :: level_filter
  out_text :: js_string

text \<open>
  The handler of \<^verbatim>\<open>get-console-logs\<close>, with its own defaults for absent arguments. It
  throws when \<^verbatim>\<open>formatLogs\<close> does.
\<close>

definition get_console_logs :: "(int \<Rightarrow> js_string) \<Rightarrow> nat \<Rightarrow> LogStore \<Rightarrow> number option \<Rightarrow> level_filter option \<Rightarrow> (error + logs_output) \<times> LogStore" where
  "get_console_logs iso_text maxLength s cnt lvl =
     (let finalCount = (case cnt of None \<Rightarrow> Num 50 | Some c \<Rightarrow> c);
          finalLevel = (case lvl of None \<Rightarrow> All | Some l \<Rightarrow> l);
          found = (case finalLevel of
                     All \<Rightarrow> getRecent s finalCount
                   | Only l \<Rightarrow> slice (getByLevel s l) (negate finalCount));
          title = lit ''Recent Console Logs''
                    @ (case finalLevel of
                         All \<Rightarrow> []
                       | Only l \<Rightarrow> lit '' ('' @ level_name l @ lit '')'')
      in (and_then (formatLogs iso_text maxLength found title) (\<lambda>text.
            Inr \<lparr>out_logs = found, out_count = length found, out_level = finalLevel,
                 out_text = text\<rparr>),
          s))"

text \<open>
  A call of the tool: the input schema, then the handler. The output schema
  \<^verbatim>\<open>{ logs: z.array(z.any()), count: z.number() }\<close> takes every result of the handler,
  an array and its length.
\<close>

definition call_get_console_logs :: "bool \<Rightarrow> (int \<Rightarrow> js_string) \<Rightarrow> nat \<Rightarrow> LogStore \<Rightarrow> logs_args \<Rightarrow> (tool_error + logs_output) \<times> LogStore" where
  "call_get_console_logs inf_ok iso_text maxLength s a =
     (case parse_logs_args inf_ok a of
        None \<Rightarrow> (Inl InvalidParams, s)
      | Some (c, lv) \<Rightarrow>
          (case get_console_logs iso_text maxLength s (Some c) (Some lv) of
             (Inl e, s') \<Rightarrow> (Inl (HandlerThrew e), s')
           | (Inr out, s') \<Rightarrow> (Inr out, s')))"

text \<open>The handler of \<^verbatim>\<open>clear-console-logs\<close>.\<close>

record clear_output =
  cleared :: nat
  success :: bool

definition clear_console_logs :: "LogStore \<Rightarrow> clear_output \<times> LogStore" where
  "clear_console_logs s =
     (let previousSize = size_LogStore s;
          s' = clear s
      in (\<lparr>cleared = previousSize, success = True\<rparr>, s'))"

text \<open>
  The handler of \<^verbatim>\<open>get-console-stats\<close>; \<^verbatim>\<open>None\<close> is \<^verbatim>\<open>null\<close>. The field
  \<open>regular\<close> is the source's \<^verbatim>\<open>log\<close>, the count of the events of level log.
\<close>

record stats =
  total :: nat
  errors :: nat
  warnings :: nat
  info :: nat
  debug :: nat
  regular :: nat
  oldestTimestamp :: "number option"
  newestTimestamp :: "number option"

definition get_console_stats :: "LogStore \<Rightarrow> stats \<times> LogStore" where
  "get_console_stats s =
     (let all = getAll s;
          errs = getErrors s;
          warns = getByLevel s Warn;
          infos = getByLevel s Info;
          debugs = getByLevel s Debug;
          regulars = getByLevel s Log
      in (\<lparr>total = length all,
           errors = length errs,
           warnings = length warns,
           info = length infos,
           debug = length debugs,
           regular = length regulars,
           oldestTimestamp = (if length all > 0 then Some (timestamp (all ! 0)) else None),
           newestTimestamp =
             (if length all > 0 then Some (timestamp (all ! (length all - 1))) else None)\<rparr>,
          s))"

text \<open>
  A number in a JSON text: \<^verbatim>\<open>JSON.stringify\<close> writes NaN and the infinities as
  \<^verbatim>\<open>null\<close>.
\<close>

fun json_number :: "number \<Rightarrow> number option" where
  "json_number (Num a) = Some (Num a)"
| "json_number _ = None"

definition json_nullable :: "number option \<Rightarrow> number option" where
  "json_nullable v = (case v of None \<Rightarrow> None | Some x \<Rightarrow> json_number x)"

text \<open>
  A call of \<^verbatim>\<open>get-console-stats\<close>, which has no arguments: the handler, then the output
  schema, whose six counts are \<^verbatim>\<open>z.number()\<close> (a length always passes) and whose two
  timestamps are \<^verbatim>\<open>z.number().nullable()\<close>; the result is the structured content as
  the response carries it, in JSON.
\<close>

definition call_get_console_stats :: "bool \<Rightarrow> LogStore \<Rightarrow> (tool_error + stats) \<times> LogStore" where
  "call_get_console_stats inf_ok s =
     (let (st, s') = get_console_stats s
      in if z_number_nullable inf_ok (oldestTimestamp st)
            \<and> z_number_nullable inf_ok (newestTimestamp st)
         then (Inr (st\<lparr>oldestTimestamp := json_nullable (oldestTimestamp st),
                        newestTimestamp := json_nullable (newestTimestamp st)\<rparr>), s')
         else (Inl InvalidOutput, s'))"

subsection \<open>The \<^verbatim>\<open>/__terminal\<close> middleware of \<^verbatim>\<open>configureServer\<close>\<close>

text \<open>
  The Number value of an integer: the nearest double, ties to the even significand, and
  an infinity beyond the largest double. An integer below \<open>2^53\<close> in magnitude is its
  own value.
\<close>

fun bit_length :: "nat \<Rightarrow> nat" where
  "bit_length n = (if n = 0 then 0 else Suc (bit_length (n div 2)))"

definition number_value :: "int \<Rightarrow> number" where
  "number_value x =
     (let a = nat \<bar>x\<bar>
      in if a < 9007199254740992 then Num (of_int x)
         else
           (let e = bit_length a - 53;
                q = a div 2 ^ e;
                r = a mod 2 ^ e;
                q' = (if 2 * r > 2 ^ e \<or> (2 * r = 2 ^ e \<and> odd q) then q + 1 else q);
                m = q' * 2 ^ e
            in if m \<ge> 2 ^ 1024 then (if x < 0 then NegInfinity else PosInfinity)
               else Num (of_int (if x < 0 then - int m else int m))))"

text \<open>
  \<^verbatim>\<open>Number.parseInt(string)\<close> with no radix: leading white space is skipped (the white
  space and line terminator code units of the language), then an optional sign, then
  \<^verbatim>\<open>0x\<close> or \<^verbatim>\<open>0X\<close> selects radix 16 (radix 10 otherwise); the longest run of digits
  of that radix is read and the rest of the string ignored. With no digit the result is
  NaN, otherwise the Number value of the integer read. The language lets an
  implementation approximate an integer of more than 20 significant digits; the engine
  of Node rounds it correctly, and so does \<open>number_value\<close>.
\<close>

definition StrWhiteSpaceChar :: "nat \<Rightarrow> bool" where
  "StrWhiteSpaceChar u =
     (u \<in> set [0x09, 0x0A, 0x0B, 0x0C, 0x0D, 0x20, 0xA0, 0x1680, 0x2028, 0x2029, 0x202F,
               0x205F, 0x3000, 0xFEFF]
      \<or> (0x2000 \<le> u \<and> u \<le> 0x200A))"

definition digit_of :: "nat \<Rightarrow> nat option" where
  "digit_of u =
     (if 48 \<le> u \<and> u \<le> 57 then Some (u - 48)
      else if 97 \<le> u \<and> u \<le> 122 then Some (u - 87)
      else if 65 \<le> u \<and> u \<le> 90 then Some (u - 55)
      else None)"

definition is_radix_digit :: "nat \<Rightarrow> nat \<Rightarrow> bool" where
  "is_radix_digit R u = (case digit_of u of Some d \<Rightarrow> d < R | None \<Rightarrow> False)"

definition radix_value :: "nat \<Rightarrow> js_string \<Rightarrow> nat" where
  "radix_value R Z =
     foldl (\<lambda>acc u. case digit_of u of Some d \<Rightarrow> acc * R + d | None \<Rightarrow> acc) 0 Z"

definition parseInt :: "js_string \<Rightarrow> number" where
  "parseInt str =
     (let S = dropWhile StrWhiteSpaceChar str;
          sign = (if take 1 S = lit ''-'' then - 1 else 1 :: int);
          S1 = (if take 1 S = lit ''+'' \<or> take 1 S = lit ''-'' then drop 1 S else S);
          hex = (take 2 S1 = lit ''0x'' \<or> take 2 S1 = lit ''0X'');
          R = (if hex then 16 else 10);
          S2 = (if hex then drop 2 S1 else S1);
          Z = takeWhile (is_radix_digit R) S2
      in if Z = [] then NaN else number_value (sign * int (radix_value R Z)))"

text \<open>
  A request, after \<^verbatim>\<open>parseURL\<close> and \<^verbatim>\<open>URLSearchParams\<close>: the path below the mount
  point and the decoded query parameters in order. \<^verbatim>\<open>searchParams.get\<close> returns the
  first value of a name, or \<^verbatim>\<open>null\<close>.
\<close>

record request =
  pathname :: js_string
  searchParams :: "(js_string \<times> js_string) list"

definition get :: "(js_string \<times> js_string) list \<Rightarrow> js_string \<Rightarrow> js_string option" where
  "get params name = map_of params name"

text \<open>
  The four values the middleware decodes from the query, lines 200 to 203: the message
  with \<^verbatim>\<open>split('\n').join('\n  ')\<close> applied, and the three numbers.
\<close>

record decoded =
  d_message :: js_string
  d_time :: number
  d_count :: number
  d_groupLevel :: number

definition decode :: "nat \<Rightarrow> (js_string \<times> js_string) list \<Rightarrow> error + decoded" where
  "decode maxLength params =
     and_then
       (built maxLength
          (join [10, 32, 32]
             (split 10 (case get params (lit ''m'') of None \<Rightarrow> [] | Some v \<Rightarrow> v))))
       (\<lambda>msg.
          Inr \<lparr>d_message = msg,
               d_time = parseInt (case get params (lit ''t'') of None \<Rightarrow> lit ''0'' | Some v \<Rightarrow> v),
               d_count = parseInt (case get params (lit ''c'') of None \<Rightarrow> lit ''0'' | Some v \<Rightarrow> v),
               d_groupLevel =
                 parseInt (case get params (lit ''g'') of None \<Rightarrow> lit ''0'' | Some v \<Rightarrow> v)\<rparr>)"

text \<open>
  \<^verbatim>\<open>groupText\<close>: for a group level other than 0, the text indented by two spaces per
  level, on every line. It throws when \<^verbatim>\<open>'  '.repeat(groupLevel)\<close> does.
\<close>

definition groupText :: "nat \<Rightarrow> js_string \<Rightarrow> number \<Rightarrow> error + js_string" where
  "groupText maxLength text lvl =
     (if lvl \<noteq> Num 0 then
        and_then (repeat maxLength (lit ''  '') lvl) (\<lambda>indent.
        and_then (built maxLength (10 # indent)) (\<lambda>sep.
        and_then (built maxLength (join sep (split 10 text))) (\<lambda>joined.
        built maxLength (indent @ joined))))
      else Inr text)"

text \<open>
  The methods the endpoint accepts,
  \<^verbatim>\<open>['assert', 'debug', 'error', 'info', 'log', 'table', 'warn', 'clear']\<close>: the six
  console levels, \<^verbatim>\<open>table\<close> and \<^verbatim>\<open>clear\<close>.
\<close>

datatype Method = Console level | Table | Clear

definition methods :: "(js_string \<times> Method) list" where
  "methods =
     [(lit ''assert'', Console Assert), (lit ''debug'', Console Debug),
      (lit ''error'', Console Error), (lit ''info'', Console Info),
      (lit ''log'', Console Log), (lit ''table'', Table),
      (lit ''warn'', Console Warn), (lit ''clear'', Clear)]"

text \<open>
  What the plugin holds across requests: the store (\<^verbatim>\<open>null\<close> unless MCP is enabled),
  the levels to retain and the silent flag.
\<close>

record plugin =
  logStore :: "LogStore option"
  mcpLevels :: "level list"
  mcpSilent :: bool

text \<open>
  How a request ends. For a console method or \<^verbatim>\<open>clear\<close> the response is ended, with
  or without a call of \<^verbatim>\<open>dispatchLog\<close>, unless building the message or the grouped
  text threw. For \<^verbatim>\<open>table\<close> the handler first applies \<^verbatim>\<open>JSON.parse\<close> to the message:
  it throws on a text that is not JSON and dispatches the table otherwise, and it never
  reaches the store.
\<close>

datatype outcome = Ended bool | TableOf js_string | Threw error

text \<open>
  The middleware. For a console method the grouped text is built first, then an
  \<^verbatim>\<open>assert\<close> is renamed to \<^verbatim>\<open>error\<close> before the level check and the store.
\<close>

definition terminal_middleware :: "nat \<Rightarrow> plugin \<Rightarrow> request \<Rightarrow> outcome \<times> plugin" where
  "terminal_middleware maxLength p req =
     (case decode maxLength (searchParams req) of
        Inl e \<Rightarrow> (Threw e, p)
      | Inr d \<Rightarrow>
          (case pathname req of
             [] \<Rightarrow> (Ended False, p)
           | c # name \<Rightarrow>
               if c \<noteq> 47 then (Ended False, p)
               else
                 (case map_of methods name of
                    None \<Rightarrow> (Ended False, p)
                  | Some Clear \<Rightarrow> (Ended True, p)
                  | Some Table \<Rightarrow> (TableOf (d_message d), p)
                  | Some (Console m) \<Rightarrow>
                      (case groupText maxLength (d_message d) (d_groupLevel d) of
                         Inl e \<Rightarrow> (Threw e, p)
                       | Inr groupedMessage \<Rightarrow>
                           (let logMethod = (if m = Assert then Error else m);
                                shouldStoreInMCP =
                                  (logStore p \<noteq> None \<and> logMethod \<in> set (mcpLevels p));
                                p' = (case logStore p of
                                        Some s \<Rightarrow>
                                          if shouldStoreInMCP
                                          then p\<lparr>logStore :=
                                                 Some (add s \<lparr>method = logMethod,
                                                              message = d_message d,
                                                              timestamp = d_time d,
                                                              count = d_count d,
                                                              groupLevel = d_groupLevel d\<rparr>)\<rparr>
                                          else p
                                      | None \<Rightarrow> p)
                            in (Ended (\<not> mcpSilent p \<or> \<not> shouldStoreInMCP), p'))))))"


text \<open>
  The plugin as \<^verbatim>\<open>configureServer\<close> sets it up with MCP enabled: a new store of the
  configured capacity, the configured levels or all six, the silent flag or false.
\<close>

definition configure_mcp :: "int option \<Rightarrow> level list option \<Rightarrow> bool option \<Rightarrow> plugin" where
  "configure_mcp maxLogs levels silent =
     \<lparr>logStore = Some (new_LogStore maxLogs),
      mcpLevels = (case levels of None \<Rightarrow> [Error, Warn, Info, Log, Debug, Assert] | Some ls \<Rightarrow> ls),
      mcpSilent = (case silent of None \<Rightarrow> False | Some b \<Rightarrow> b)\<rparr>"

text \<open>
  The largest string length of the engine of Node on a 64-bit platform, for the
  concrete scenarios.
\<close>

definition kMaxLength :: nat where
  "kMaxLength = 2 ^ 29 - 24"

section \<open>Properties of the store\<close>

subsection \<open>Capacity and eviction\<close>

lemma logs_add:
  "logs (add s e) =
     (if int (length (logs s)) + 1 > maxSize s then tl (logs s @ [e]) else logs s @ [e])"
  by (simp add: add_def shift_def Let_def split: list.splits)

lemma maxSize_add: "maxSize (add s e) = maxSize s"
  by (simp add: add_def Let_def)

lemma maxSize_add_all: "maxSize (add_all s evs) = maxSize s"
  unfolding add_all_def by (induction evs arbitrary: s) (simp_all add: maxSize_add)

text \<open>
  One add on a store that is within its capacity keeps the last \<open>maxSize\<close> of the
  events seen so far.
\<close>

lemma logs_add_window:
  assumes "0 \<le> maxSize s" and "int (length (logs s)) \<le> maxSize s"
  shows "logs (add s e) = drop (length (logs s @ [e]) - nat (maxSize s)) (logs s @ [e])"
proof (cases "int (length (logs s)) + 1 > maxSize s")
  case True
  with assms have full: "length (logs s) = nat (maxSize s)" by linarith
  have "tl (logs s @ [e]) = drop (Suc 0) (logs s @ [e])"
    by (cases "logs s") simp_all
  with True full show ?thesis
    by (simp add: logs_add)
next
  case False
  then have "length (logs s @ [e]) \<le> nat (maxSize s)" by simp
  with False show ?thesis
    by (simp add: logs_add)
qed

lemma drop_window_append:
  fixes xs ys :: "'a list" and c :: nat
  shows "drop (length (drop (length xs - c) xs @ ys) - c) (drop (length xs - c) xs @ ys) =
         drop (length (xs @ ys) - c) (xs @ ys)"
proof (cases "length xs \<le> c")
  case True
  then show ?thesis by simp
next
  case False
  then have "length xs - (length xs - c) = c" by simp
  with False show ?thesis by (simp add: add.commute)
qed

lemma logs_add_all_window:
  assumes "0 \<le> maxSize s" and "int (length (logs s)) \<le> maxSize s"
  shows "logs (add_all s evs) = drop (length (logs s @ evs) - nat (maxSize s)) (logs s @ evs)"
  using assms
proof (induction evs arbitrary: s)
  case Nil
  then show ?case by (simp add: add_all_def)
next
  case (Cons e evs)
  let ?s = "add s e"
  let ?c = "nat (maxSize s)"
  have step: "logs ?s = drop (length (logs s @ [e]) - ?c) (logs s @ [e])"
    using Cons.prems by (rule logs_add_window)
  have cap: "maxSize ?s = maxSize s" by (rule maxSize_add)
  have within: "int (length (logs ?s)) \<le> maxSize ?s"
    using Cons.prems by (simp add: step cap)
  have "logs (add_all ?s evs) = drop (length (logs ?s @ evs) - ?c) (logs ?s @ evs)"
    using Cons.IH [of ?s] Cons.prems within by (simp add: cap)
  also have "\<dots> = drop (length ((logs s @ [e]) @ evs) - ?c) ((logs s @ [e]) @ evs)"
    unfolding step by (rule drop_window_append)
  also have "\<dots> = drop (length (logs s @ e # evs) - ?c) (logs s @ e # evs)"
    by simp
  finally show ?case by (simp add: add_all_def)
qed

text \<open>
  Claim C1. For every capacity \<open>c \<ge> 0\<close> and every sequence of adds on a store built
  with that capacity, the size after the adds is at most \<open>c\<close> and is the minimum of
  the number of adds and \<open>c\<close>, and the store holds the last \<open>c\<close> events added, oldest
  first (all of them while fewer than \<open>c\<close> were added). As the sequence is arbitrary,
  this holds after each add. With capacity 2, adding A, B, C leaves exactly B, C.
\<close>

theorem C1_capacity_fifo:
  assumes "0 \<le> c"
  shows "int (size_LogStore (add_all (new_LogStore (Some c)) evs)) \<le> c
       \<and> size_LogStore (add_all (new_LogStore (Some c)) evs) = min (length evs) (nat c)
       \<and> getAll (add_all (new_LogStore (Some c)) evs) = drop (length evs - nat c) evs
       \<and> getAll (add_all (new_LogStore (Some 2)) [A, B, C]) = [B, C]"
proof -
  let ?new = "\<lambda>k. new_LogStore (Some k)"
  have window: "logs (add_all (?new k) es) = drop (length es - nat k) es"
    if "0 \<le> k" for k and es :: "StoredLog list"
    using logs_add_all_window [of "?new k" es] that by (simp add: new_LogStore_def)
  have "logs (add_all (?new 2) [A, B, C]) = drop (length [A, B, C] - nat 2) [A, B, C]"
    by (rule window) simp
  then have scenario: "getAll (add_all (?new 2) [A, B, C]) = [B, C]"
    by (simp add: getAll_def)
  from assms show ?thesis
    using scenario by (simp add: size_LogStore_def getAll_def window) linarith
qed

theorem C1_capacity_fifo_witness:
  "(0::int) \<le> 2
   \<and> size_LogStore (add_all (new_LogStore (Some 2)) [event Log 1, event Warn 2, event Error 3]) = 2
   \<and> getAll (add_all (new_LogStore (Some 2)) [event Log 1, event Warn 2, event Error 3])
       = [event Warn 2, event Error 3]"
  using C1_capacity_fifo [of 2 "[event Log 1, event Warn 2, event Error 3]"]
  by simp

subsection \<open>The most recent events\<close>

lemma slice_negative:
  assumes "0 < n"
  shows "slice xs (negate (Num (of_int n))) = drop (length xs - nat n) xs"
proof -
  have "\<lceil>- real_of_int n\<rceil> = - n"
    by (simp flip: of_int_minus)
  with assms have "ToIntegerOrInfinity (negate (Num (of_int n))) = Integer (- n)"
    by simp
  moreover have "nat (max (int (length xs) - n) 0) = length xs - nat n"
    using assms by linarith
  ultimately show ?thesis
    using assms by (simp only: slice_def Let_def) simp
qed

text \<open>
  For a positive whole count \<open>n\<close>, \<^verbatim>\<open>getRecent(n)\<close> is the last \<open>min n size\<close> events:
  the whole store when \<open>n \<ge> size\<close>, the last \<open>n\<close> otherwise.
\<close>

lemma getRecent_positive:
  assumes "0 < n"
  shows "getRecent s (Num (of_int n)) = drop (size_LogStore s - nat n) (getAll s)"
  unfolding getRecent_def size_LogStore_def getAll_def using assms by (rule slice_negative)

text \<open>
  Claim C2, at the counts where the code departs from it. \<^verbatim>\<open>getRecent(0)\<close> is
  \<^verbatim>\<open>logs.slice(-0)\<close>, the whole array, not the empty one; a negative count \<open>-k\<close>
  gives \<^verbatim>\<open>logs.slice(k)\<close>, the store without its first \<open>k\<close> events.
\<close>

theorem C2_getRecent_zero_returns_all:
  "getRecent s (Num 0) = getAll s
   \<and> getRecent (add_all (new_LogStore None) [event Log 1, event Warn 2]) (Num 0)
       = [event Log 1, event Warn 2]
   \<and> getRecent (add_all (new_LogStore None) [event Log 1, event Warn 2]) (Num (- 1))
       = [event Warn 2]"
proof -
  have zero: "getRecent t (Num 0) = getAll t" for t
    by (simp add: getRecent_def getAll_def slice_def)
  have stored: "logs (add_all (new_LogStore None) [event Log 1, event Warn 2])
      = [event Log 1, event Warn 2]"
    using logs_add_all_window [of "new_LogStore None" "[event Log 1, event Warn 2]"]
    by (simp add: new_LogStore_def)
  have "getRecent (add_all (new_LogStore None) [event Log 1, event Warn 2]) (Num (- 1))
      = [event Warn 2]"
    by (simp add: getRecent_def slice_def stored)
  with zero [of s] zero [of "add_all (new_LogStore None) [event Log 1, event Warn 2]"] stored
  show ?thesis by (simp add: getAll_def)
qed

subsection \<open>Filters by level and by time\<close>

lemma count_list_filter:
  "count_list (filter P xs) x = (if P x then count_list xs x else 0)"
  by (induction xs) auto

text \<open>
  Claim C4. For every store and every level \<open>L\<close>, \<^verbatim>\<open>getByLevel(L)\<close> is a subsequence
  of the store (so the relative order is kept) in which every stored event of level
  \<open>L\<close> occurs as often as in the store, and no other event occurs; \<^verbatim>\<open>getErrors()\<close> is
  the same for the events of level error or assert.
\<close>

theorem C4_level_filters:
  "subseq (getByLevel s L) (getAll s)
   \<and> (\<forall>e. count_list (getByLevel s L) e = (if method e = L then count_list (getAll s) e else 0))
   \<and> subseq (getErrors s) (getAll s)
   \<and> (\<forall>e. count_list (getErrors s) e =
          (if method e = Error \<or> method e = Assert then count_list (getAll s) e else 0))"
  by (simp add: getByLevel_def getErrors_def getAll_def count_list_filter)

lemma num_ge_trans:
  assumes "num_ge x t'" and "num_le t t'"
  shows "num_ge x t"
  using assms by (cases x; cases t; cases t') simp_all

lemma getSince_later:
  assumes "num_le t t'"
  shows "getSince s t' = filter (\<lambda>lg. num_ge (timestamp lg) t') (getSince s t)"
proof -
  have "(num_ge x t \<and> num_ge x t') = num_ge x t'" for x
    using assms num_ge_trans by blast
  then show ?thesis
    by (simp add: getSince_def)
qed

text \<open>
  Claim C5. For every store and all timestamps \<open>t \<le> t'\<close>, every event of
  \<^verbatim>\<open>getSince(t')\<close> is in \<^verbatim>\<open>getSince(t)\<close> (indeed the former is a subsequence of the
  latter), every event of \<^verbatim>\<open>getSince(t)\<close> has a timestamp \<open>\<ge> t\<close>, and the result is a
  subsequence of the store, so insertion order is kept. After adding events with the
  timestamps 100, 200, 50, 300, \<^verbatim>\<open>getSince(150)\<close> is the events of 200 and 300, in that
  order.
\<close>

theorem C5_getSince_monotone:
  assumes "num_le t t'"
  shows "set (getSince s t') \<subseteq> set (getSince s t)
       \<and> subseq (getSince s t') (getSince s t)
       \<and> (\<forall>e \<in> set (getSince s t). num_ge (timestamp e) t)
       \<and> subseq (getSince s t) (getAll s)
       \<and> getSince (add_all (new_LogStore None)
            [e1\<lparr>timestamp := Num 100\<rparr>, e2\<lparr>timestamp := Num 200\<rparr>,
             e3\<lparr>timestamp := Num 50\<rparr>, e4\<lparr>timestamp := Num 300\<rparr>]) (Num 150)
          = [e2\<lparr>timestamp := Num 200\<rparr>, e4\<lparr>timestamp := Num 300\<rparr>]"
proof -
  let ?evs = "[e1\<lparr>timestamp := Num 100\<rparr>, e2\<lparr>timestamp := Num 200\<rparr>,
               e3\<lparr>timestamp := Num 50\<rparr>, e4\<lparr>timestamp := Num 300\<rparr>]"
  have later: "getSince s t' = filter (\<lambda>lg. num_ge (timestamp lg) t') (getSince s t)"
    using assms by (rule getSince_later)
  have sub: "subseq (getSince s t') (getSince s t)"
    by (subst later) simp
  have incl: "set (getSince s t') \<subseteq> set (getSince s t)"
    by (subst later) auto
  have bound: "\<forall>e \<in> set (getSince s t). num_ge (timestamp e) t"
    by (simp add: getSince_def)
  have order: "subseq (getSince s t) (getAll s)"
    by (simp add: getSince_def getAll_def)
  have "logs (add_all (new_LogStore None) ?evs) = ?evs"
    using logs_add_all_window [of "new_LogStore None" ?evs]
    by (simp add: new_LogStore_def)
  then have scenario: "getSince (add_all (new_LogStore None) ?evs) (Num 150)
      = [e2\<lparr>timestamp := Num 200\<rparr>, e4\<lparr>timestamp := Num 300\<rparr>]"
    by (simp add: getSince_def)
  from incl sub bound order scenario show ?thesis by blast
qed

theorem C5_getSince_monotone_witness:
  "num_le (Num 150) (Num 250)
   \<and> getSince (add_all (new_LogStore None)
        [event Log 100, event Error 200, event Warn 50, event Error 300]) (Num 150)
      = [event Error 200, event Error 300]
   \<and> set (getSince (add_all (new_LogStore None)
        [event Log 100, event Error 200, event Warn 50, event Error 300]) (Num 250))
      \<subseteq> {event Error 200, event Error 300}"
proof -
  let ?s = "add_all (new_LogStore None)
        [event Log 100, event Error 200, event Warn 50, event Error 300]"
  have h: "num_le (Num 150) (Num 250)" by simp
  note all = C5_getSince_monotone [OF h, of ?s
      "event Log 100" "event Error 200" "event Warn 50" "event Error 300"]
  have same: "(event lv x)\<lparr>timestamp := Num x\<rparr> = event lv x" for lv x
    by (simp add: event_def)
  from all have scenario: "getSince ?s (Num 150) = [event Error 200, event Error 300]"
    unfolding same by (elim conjE)
  from all have "set (getSince ?s (Num 250)) \<subseteq> set (getSince ?s (Num 150))"
    by (elim conjE)
  with scenario have "set (getSince ?s (Num 250)) \<subseteq> {event Error 200, event Error 300}"
    by simp
  with h scenario show ?thesis by (intro conjI)
qed

section \<open>Properties of the query tools\<close>

subsection \<open>Statistics\<close>

text \<open>
  When the first stored timestamp is NaN the output schema refuses the statistics, and
  the call answers an error.
\<close>

lemma stats_NaN_refused:
  assumes "logs s \<noteq> []" and "timestamp (hd (logs s)) = NaN"
  shows "call_get_console_stats inf_ok s = (Inl InvalidOutput, s)"
proof -
  have "logs s ! 0 = hd (logs s)"
    using assms(1) by (simp add: hd_conv_nth)
  then show ?thesis
    using assms
    by (simp add: call_get_console_stats_def get_console_stats_def Let_def getAll_def)
qed



subsection \<open>Clearing\<close>

text \<open>
  Claim C8. \<^verbatim>\<open>clear()\<close> empties the store, and the clear tool reports the size the
  store had before as its cleared count: 0 on an empty store, which it leaves empty. A
  second clear right after the first reports 0 and leaves the state the first one left.
\<close>

theorem C8_clear_idempotent:
  "size_LogStore (clear s) = 0
   \<and> getAll (clear s) = []
   \<and> clear_console_logs s = (\<lparr>cleared = size_LogStore s, success = True\<rparr>, clear s)
   \<and> clear_console_logs (new_LogStore c) = (\<lparr>cleared = 0, success = True\<rparr>, new_LogStore c)
   \<and> clear_console_logs (snd (clear_console_logs s))
        = (\<lparr>cleared = 0, success = True\<rparr>, snd (clear_console_logs s))
   \<and> clear (clear s) = clear s"
  by (simp add: clear_console_logs_def clear_def size_LogStore_def getAll_def new_LogStore_def)

subsection \<open>Rejected queries\<close>

lemma get_console_logs_store: "snd (get_console_logs iso_text maxLength s cnt lvl) = s"
  by (simp add: get_console_logs_def Let_def)

text \<open>A call never changes the store, whether its arguments pass the schema or not.\<close>

lemma call_get_console_logs_store:
  "snd (call_get_console_logs inf_ok iso_text maxLength s a) = s"
proof (cases "parse_logs_args inf_ok a")
  case None
  then show ?thesis by (simp add: call_get_console_logs_def)
next
  case (Some parsed)
  obtain c lv where parsed: "parsed = (c, lv)" by (cases parsed)
  obtain out s' where run: "get_console_logs iso_text maxLength s (Some c) (Some lv) = (out, s')"
    by (cases "get_console_logs iso_text maxLength s (Some c) (Some lv)")
  with get_console_logs_store [of iso_text maxLength s "Some c" "Some lv"] have "s' = s"
    by simp
  with Some parsed run show ?thesis
    by (cases out) (simp_all add: call_get_console_logs_def)
qed

text \<open>
  Claim C9. For every store, a \<^verbatim>\<open>get-console-logs\<close> call whose level is a string
  outside the enumeration is rejected with an error, the store after the call is the
  store before it, and so is the result of \<^verbatim>\<open>getAll()\<close>. The handler itself only
  reads: whatever its arguments, it returns the store it was given.
\<close>

theorem C9_bad_level_rejected:
  assumes "arg_level a = Some name" and "map_of level_enum name = None"
  shows "call_get_console_logs inf_ok iso_text maxLength s a = (Inl InvalidParams, s)
       \<and> getAll (snd (call_get_console_logs inf_ok iso_text maxLength s a)) = getAll s
       \<and> snd (get_console_logs iso_text maxLength s cnt lvl) = s"
proof -
  have "parse_logs_args inf_ok a = None"
    using assms by (simp add: parse_logs_args_def split: option.splits)
  then have "call_get_console_logs inf_ok iso_text maxLength s a = (Inl InvalidParams, s)"
    by (simp add: call_get_console_logs_def)
  then show ?thesis
    by (simp add: get_console_logs_store)
qed

theorem C9_bad_level_rejected_witness:
  "map_of level_enum (lit ''critical'') = None
   \<and> (\<forall>inf_ok iso_text maxLength.
        call_get_console_logs inf_ok iso_text maxLength
          (add_all (new_LogStore None) [event Log 100, event Error 200])
          \<lparr>arg_count = Some (Num 5), arg_level = Some (lit ''critical'')\<rparr>
        = (Inl InvalidParams, add_all (new_LogStore None) [event Log 100, event Error 200]))"
proof -
  have out: "map_of level_enum (lit ''critical'') = None"
    by (simp add: level_enum_def lit_def)
  have "call_get_console_logs inf_ok iso_text maxLength
          (add_all (new_LogStore None) [event Log 100, event Error 200])
          \<lparr>arg_count = Some (Num 5), arg_level = Some (lit ''critical'')\<rparr>
        = (Inl InvalidParams, add_all (new_LogStore None) [event Log 100, event Error 200])"
    for inf_ok iso_text maxLength
    using C9_bad_level_rejected [of "\<lparr>arg_count = Some (Num 5), arg_level = Some (lit ''critical'')\<rparr>"
      "lit ''critical''" inf_ok iso_text maxLength
      "add_all (new_LogStore None) [event Log 100, event Error 200]"] out
    by simp
  with out show ?thesis by blast
qed

section \<open>Properties of the transport endpoint\<close>

subsection \<open>Numeric fields\<close>

text \<open>The digits of radix 10 are the ten code units of 0 to 9.\<close>

lemma decimal_digit_units: "is_radix_digit 10 u \<longleftrightarrow> 48 \<le> u \<and> u \<le> 57"
  by (auto simp: is_radix_digit_def digit_of_def split: if_splits)



lemma zero_is_decimal_digit: "is_radix_digit 10 48"
  by (simp add: decimal_digit_units)



text \<open>A text with no decimal digit in it is read as NaN.\<close>

lemma parseInt_no_digit:
  assumes "\<forall>u \<in> set v. \<not> is_radix_digit 10 u"
  shows "parseInt v = NaN"
proof -
  define S where "S = dropWhile StrWhiteSpaceChar v"
  define S1 where "S1 = (if take 1 S = lit ''+'' \<or> take 1 S = lit ''-'' then drop 1 S else S)"
  have "set S \<subseteq> set v"
    unfolding S_def by (rule set_dropWhileD [THEN subsetI])
  moreover have "set S1 \<subseteq> set S"
    unfolding S1_def by (auto dest: in_set_dropD)
  ultimately have none: "\<forall>u \<in> set S1. \<not> is_radix_digit 10 u"
    using assms by blast
  have nohex: "take 2 S1 \<noteq> lit ''0x''" "take 2 S1 \<noteq> lit ''0X''"
  proof -
    have "48 \<notin> set S1" using none zero_is_decimal_digit by blast
    then have "48 \<notin> set (take 2 S1)" by (auto dest: in_set_takeD)
    then show "take 2 S1 \<noteq> lit ''0x''" "take 2 S1 \<noteq> lit ''0X''"
      by (auto simp: lit_def)
  qed
  have "takeWhile (is_radix_digit 10) S1 = []"
    using none by (cases S1) simp_all
  then show ?thesis
    using nohex unfolding parseInt_def Let_def S_def [symmetric] S1_def [symmetric]
    by simp
qed

lemma parseInt_zero: "parseInt (lit ''0'') = Num 0"
  by (simp add: parseInt_def lit_def StrWhiteSpaceChar_def is_radix_digit_def digit_of_def
      radix_value_def number_value_def)

lemma parseInt_abc: "parseInt (lit ''abc'') = NaN"
  by (rule parseInt_no_digit) (simp add: lit_def decimal_digit_units)

text \<open>
  Beyond \<open>2^53\<close> the value read is rounded to a double, and white space is the whole
  set of the language, not only its ASCII part.
\<close>

lemma parseInt_rounds: "parseInt (lit ''9007199254740993'') = Num 9007199254740992"
  by (simp add: parseInt_def lit_def StrWhiteSpaceChar_def is_radix_digit_def digit_of_def
      radix_value_def number_value_def Let_def)

lemma parseInt_no_break_space: "parseInt (160 # lit ''5'') = Num 5"
  by (simp add: parseInt_def lit_def StrWhiteSpaceChar_def is_radix_digit_def digit_of_def
      radix_value_def number_value_def Let_def)

subsection \<open>The message\<close>

lemma split_nonempty: "split sep cs \<noteq> []"
  by (induction cs) (auto split: list.splits)

lemma join_Cons_head: "join sep ((c # part) # parts) = c # join sep (part # parts)"
  by (cases parts) simp_all

text \<open>Splitting on a code unit and joining with a text replaces each such code unit.\<close>

lemma join_split:
  "join sep2 (split sep cs) = concat (map (\<lambda>c. if c = sep then sep2 else [c]) cs)"
proof (induction cs)
  case Nil
  then show ?case by simp
next
  case (Cons c cs)
  obtain part parts where sp: "split sep cs = part # parts"
    using split_nonempty [of sep cs] by (cases "split sep cs") auto
  show ?case
  proof (cases "c = sep")
    case True
    then show ?thesis using Cons.IH by (simp add: sp)
  next
    case False
    then show ?thesis using Cons.IH by (simp add: sp join_Cons_head)
  qed
qed

lemma replaced_length:
  "length (concat (map (\<lambda>c. if c = sep then [sep, a, b] else [c]) cs)) =
     length cs + 2 * length (filter (\<lambda>c. c = sep) cs)"
  by (induction cs) simp_all

lemma replaced_same:
  assumes "sep \<notin> set cs"
  shows "concat (map (\<lambda>c. if c = sep then sep2 else [c]) cs) = cs"
  using assms by (induction cs) auto

lemma replaced_differs:
  assumes "sep \<in> set cs"
  shows "concat (map (\<lambda>c. if c = sep then [sep, a, b] else [c]) cs) \<noteq> cs"
proof -
  from assms have "filter (\<lambda>c. c = sep) cs \<noteq> []"
    by (simp add: filter_empty_conv)
  then have "length cs < length (concat (map (\<lambda>c. if c = sep then [sep, a, b] else [c]) cs))"
    by (simp add: replaced_length)
  then show ?thesis by auto
qed

text \<open>
  What a decoding that does not throw gives: the \<open>m\<close> parameter (the empty text when
  absent) with every newline replaced by a newline and two spaces, and for each numeric
  field 0 when it is absent and what \<^verbatim>\<open>parseInt\<close> reads otherwise.
\<close>

lemma decode_fields:
  assumes "decode maxLength ps = Inr d"
  shows "d_message d =
           concat (map (\<lambda>c. if c = 10 then [10, 32, 32] else [c])
             (case get ps (lit ''m'') of None \<Rightarrow> [] | Some v \<Rightarrow> v))"
    and "d_time d = (case get ps (lit ''t'') of None \<Rightarrow> Num 0 | Some v \<Rightarrow> parseInt v)"
    and "d_count d = (case get ps (lit ''c'') of None \<Rightarrow> Num 0 | Some v \<Rightarrow> parseInt v)"
    and "d_groupLevel d = (case get ps (lit ''g'') of None \<Rightarrow> Num 0 | Some v \<Rightarrow> parseInt v)"
  using assms
  by (auto simp: decode_def built_def join_split parseInt_zero split: if_splits option.splits)

text \<open>
  A message without a newline is decoded as it arrived, a message with one is decoded
  changed.
\<close>

lemma decode_message:
  assumes "decode maxLength ps = Inr d"
    and "arrived = (case get ps (lit ''m'') of None \<Rightarrow> [] | Some v \<Rightarrow> v)"
  shows "(10 \<notin> set arrived \<longrightarrow> d_message d = arrived)
       \<and> (10 \<in> set arrived \<longrightarrow> d_message d \<noteq> arrived)"
  using decode_fields(1) [OF assms(1)] replaced_same [of 10 arrived "[10, 32, 32]"]
    replaced_differs [of 10 arrived 32 32]
  by (simp add: assms(2))

text \<open>A group level of 0 never makes \<^verbatim>\<open>groupText\<close> throw.\<close>

lemma groupText_zero: "groupText maxLength text (Num 0) = Inr text"
  by (simp add: groupText_def)

text \<open>A negative group level always does.\<close>

lemma groupText_negative:
  assumes "a \<le> - 1"
  shows "groupText maxLength text (Num a) = Inl RangeError"
proof -
  from assms have "\<lceil>a\<rceil> < 0" by linarith
  with assms show ?thesis
    by (simp add: groupText_def repeat_def)
qed

text \<open>What the middleware does with a console method when nothing throws.\<close>

lemma middleware_stores:
  assumes "logStore p = Some s" and "pathname req = 47 # name"
    and "map_of methods name = Some (Console m)"
    and "(if m = Assert then Error else m) \<in> set (mcpLevels p)"
    and "decode maxLength (searchParams req) = Inr d"
    and "groupText maxLength (d_message d) (d_groupLevel d) = Inr grouped"
  shows "logStore (snd (terminal_middleware maxLength p req)) =
     Some (add s \<lparr>method = (if m = Assert then Error else m),
                  message = d_message d,
                  timestamp = d_time d,
                  count = d_count d,
                  groupLevel = d_groupLevel d\<rparr>)"
  using assms by (simp add: terminal_middleware_def Let_def)

text \<open>A request that throws leaves the plugin, and so the store, as it was.\<close>

lemma middleware_throws:
  assumes "pathname req = 47 # name" and "map_of methods name = Some (Console m)"
    and "decode maxLength (searchParams req) = Inr d"
    and "groupText maxLength (d_message d) (d_groupLevel d) = Inl e"
  shows "terminal_middleware maxLength p req = (Threw e, p)"
  using assms by (simp add: terminal_middleware_def)

text \<open>So a console request with the group level \<^verbatim>\<open>g=-1\<close> stores nothing.\<close>

lemma middleware_negative_group:
  "terminal_middleware kMaxLength p
     \<lparr>pathname = lit ''/assert'', searchParams = [(lit ''g'', lit ''-1'')]\<rparr>
   = (Threw RangeError, p)"
proof -
  have minus: "parseInt (lit ''-1'') = Num (- 1)"
    by (simp add: parseInt_def lit_def StrWhiteSpaceChar_def is_radix_digit_def digit_of_def
        radix_value_def number_value_def Let_def)
  have dec: "decode kMaxLength [(lit ''g'', lit ''-1'')]
      = Inr \<lparr>d_message = [], d_time = Num 0, d_count = Num 0, d_groupLevel = Num (- 1)\<rparr>"
    by (simp add: decode_def get_def built_def minus parseInt_zero
        lit_def [of "''t''"] lit_def [of "''m''"] lit_def [of "''c''"] lit_def [of "''g''"])
  have name: "map_of methods (lit ''assert'') = Some (Console Assert)"
    by (simp add: methods_def lit_def)
  show ?thesis
    using middleware_throws [of "\<lparr>pathname = lit ''/assert'',
        searchParams = [(lit ''g'', lit ''-1'')]\<rparr>" "lit ''assert''" Assert kMaxLength
        "\<lparr>d_message = [], d_time = Num 0, d_count = Num 0, d_groupLevel = Num (- 1)\<rparr>"
        RangeError p] name dec groupText_negative [of "- 1" kMaxLength "[]"]
    by (simp add: lit_def [of "''/assert''"] lit_def [of "''assert''"])
qed

text \<open>
  Claim C7, at a malformed field. The query \<^verbatim>\<open>t=abc\<close> decodes without an error, but
  its timestamp is NaN and not 0; the event is stored with that timestamp, and the next
  \<^verbatim>\<open>get-console-logs\<close> call on the store throws in \<^verbatim>\<open>formatLogs\<close>.
\<close>

theorem C7_malformed_is_NaN:
  "decode maxLength [(lit ''t'', lit ''abc'')]
     = Inr \<lparr>d_message = [], d_time = NaN, d_count = Num 0, d_groupLevel = Num 0\<rparr>
   \<and> NaN \<noteq> Num 0
   \<and> logStore (snd (terminal_middleware maxLength (configure_mcp None None None)
        \<lparr>pathname = lit ''/log'', searchParams = [(lit ''t'', lit ''abc'')]\<rparr>))
      = Some \<lparr>logs = [\<lparr>method = Log, message = [], timestamp = NaN,
                        count = Num 0, groupLevel = Num 0\<rparr>],
              maxSize = 1000\<rparr>
   \<and> fst (call_get_console_logs inf_ok iso_text maxLength
        \<lparr>logs = [\<lparr>method = Log, message = [], timestamp = NaN,
                  count = Num 0, groupLevel = Num 0\<rparr>],
         maxSize = 1000\<rparr>
        \<lparr>arg_count = Some (Num 50), arg_level = Some (lit ''all'')\<rparr>)
      = Inl (HandlerThrew RangeError)"
proof -
  have dec: "decode maxLength [(lit ''t'', lit ''abc'')]
      = Inr \<lparr>d_message = [], d_time = NaN, d_count = Num 0, d_groupLevel = Num 0\<rparr>"
    by (simp add: decode_def get_def built_def parseInt_abc parseInt_zero lit_def [of "''t''"]
        lit_def [of "''m''"] lit_def [of "''c''"] lit_def [of "''g''"])
  have name: "map_of methods (lit ''log'') = Some (Console Log)"
    by (simp add: methods_def lit_def)
  have stored: "logStore (snd (terminal_middleware maxLength (configure_mcp None None None)
        \<lparr>pathname = lit ''/log'', searchParams = [(lit ''t'', lit ''abc'')]\<rparr>))
      = Some \<lparr>logs = [\<lparr>method = Log, message = [], timestamp = NaN,
                        count = Num 0, groupLevel = Num 0\<rparr>],
              maxSize = 1000\<rparr>"
    using middleware_stores [of "configure_mcp None None None" "new_LogStore None"
        "\<lparr>pathname = lit ''/log'', searchParams = [(lit ''t'', lit ''abc'')]\<rparr>"
        "lit ''log''" Log maxLength
        "\<lparr>d_message = [], d_time = NaN, d_count = Num 0, d_groupLevel = Num 0\<rparr>" "[]"]
      name dec
    by (simp add: configure_mcp_def groupText_zero new_LogStore_def add_def shift_def
        lit_def [of "''/log''"] lit_def [of "''log''"])
  have args: "parse_logs_args inf_ok \<lparr>arg_count = Some (Num 50), arg_level = Some (lit ''all'')\<rparr>
      = Some (Num 50, All)"
    by (simp add: parse_logs_args_def level_enum_def lit_def)
  have "formatLogs iso_text maxLength
      [\<lparr>method = Log, message = [], timestamp = NaN, count = Num 0, groupLevel = Num 0\<rparr>] title
      = Inl RangeError" for title
    by (simp add: formatLogs_def format_entry_def toISOString_def time_value_def)
  then have "fst (call_get_console_logs inf_ok iso_text maxLength
        \<lparr>logs = [\<lparr>method = Log, message = [], timestamp = NaN,
                  count = Num 0, groupLevel = Num 0\<rparr>],
         maxSize = 1000\<rparr>
        \<lparr>arg_count = Some (Num 50), arg_level = Some (lit ''all'')\<rparr>)
      = Inl (HandlerThrew RangeError)"
    by (simp add: call_get_console_logs_def args get_console_logs_def getRecent_def slice_def)
  with dec stored show ?thesis by simp
qed

theorem C7_malformed_is_NaN_witness:
  "decode kMaxLength [(lit ''t'', lit ''abc'')]
     = Inr \<lparr>d_message = [], d_time = NaN, d_count = Num 0, d_groupLevel = Num 0\<rparr>
   \<and> logStore (snd (terminal_middleware kMaxLength (configure_mcp None None None)
        \<lparr>pathname = lit ''/log'', searchParams = [(lit ''t'', lit ''abc'')]\<rparr>))
      = Some \<lparr>logs = [\<lparr>method = Log, message = [], timestamp = NaN,
                        count = Num 0, groupLevel = Num 0\<rparr>],
              maxSize = 1000\<rparr>"
  using C7_malformed_is_NaN [of kMaxLength] by simp



subsection \<open>The level tag of an assert\<close>











end
